theory Spec2Isabelle
  imports Main
begin

section \<open>The LED sequencer of app/src/main.c\<close>

text \<open>
  The program drives four LED lines through the platform's GPIO driver, its sleep
  primitive and its two output channels (the logging facility and printk).
  None of these is implemented in main.c: every call to them is recorded, in
  program order, in a trace of events, and the driver's effect on the lines is
  kept in an explicit store indexed by the position of the LED in the array
  \<^verbatim>\<open>leds[]\<close>. The four device-tree aliases are taken to name four
  distinct lines.
\<close>

subsection \<open>Build-time configuration\<close>

text \<open>\<^verbatim>\<open>NUM_LEDS\<close> is sizeof(leds) / sizeof(leds[0]); the initialiser has four entries.\<close>

definition NUM_LEDS :: nat where
  "NUM_LEDS = 4"

definition STEP_DELAY_MS :: int where
  "STEP_DELAY_MS = 150"

definition LAP_DELAY_MS :: int where
  "LAP_DELAY_MS = 400"

definition STARTUP_FLASHES :: nat where
  "STARTUP_FLASHES = 2"

subsection \<open>Events and the state of the world\<close>

text \<open>The one configuration flag main.c passes, and its active counterpart.\<close>

datatype gpio_flags = GPIO_OUTPUT_INACTIVE | GPIO_OUTPUT_ACTIVE

text \<open>An argument of a format string: \<^verbatim>\<open>%u\<close> takes an unsigned, \<^verbatim>\<open>%d\<close> an int.\<close>

datatype fmt_arg = ArgU nat | ArgD int

text \<open>
  One event per call that leaves main.c. The LED is named by its index in
  \<^verbatim>\<open>leds[]\<close>; a message is its format string with its arguments.
\<close>

datatype event =
    GPIO_IS_READY nat
  | GPIO_PIN_CONFIGURE nat gpio_flags
  | GPIO_PIN_SET nat int
  | GPIO_PIN_TOGGLE nat
  | K_MSLEEP int
  | LOG_ERR string "fmt_arg list"
  | LOG_INF string "fmt_arg list"
  | PRINTK string "fmt_arg list"

text \<open>
  The world: the logic level of every LED line (True is active), whether the
  line has been configured as an output, and the trace so far.
\<close>

record world =
  level :: "nat \<Rightarrow> bool"
  is_output :: "nat \<Rightarrow> bool"
  trace :: "event list"

text \<open>
  What the hardware answers during one run, and the errno constant of the
  platform's C library. main.c asks each question at most once per LED, so the
  answers are functions of the LED index. \<^verbatim>\<open>ENODEV\<close> comes from errno.h,
  which is not part of the repository: it is a parameter.
\<close>

record platform =
  device_ready :: "nat \<Rightarrow> bool"
  configure_result :: "nat \<Rightarrow> int"
  ENODEV :: int

definition emit :: "event \<Rightarrow> world \<Rightarrow> world" where
  "emit e s = s\<lparr>trace := trace s @ [e]\<rparr>"

subsection \<open>The GPIO driver, the sleep primitive and the output channels\<close>

text \<open>
  Modelled from the spec: the GPIO driver interface of section 6 (isReady,
  configureOutput, setLevel, toggleLevel) is an external collaborator, not
  implemented in the repository. A successful configuration makes the line an
  output at the requested logic level, a failed one changes nothing; setting
  and toggling act on the logic level and cannot fail (section 7); a sleep
  only passes time. main.c ignores the results of set and toggle.
\<close>

definition gpio_is_ready_dt :: "platform \<Rightarrow> nat \<Rightarrow> world \<Rightarrow> bool \<times> world" where
  "gpio_is_ready_dt p i s = (device_ready p i, emit (GPIO_IS_READY i) s)"

definition gpio_pin_configure_dt ::
  "platform \<Rightarrow> nat \<Rightarrow> gpio_flags \<Rightarrow> world \<Rightarrow> int \<times> world" where
  "gpio_pin_configure_dt p i f s =
     (let s1 = emit (GPIO_PIN_CONFIGURE i f) s in
      if configure_result p i = 0
      then (0, s1\<lparr>level := (level s1)(i := (f = GPIO_OUTPUT_ACTIVE)),
                  is_output := (is_output s1)(i := True)\<rparr>)
      else (configure_result p i, s1))"

definition gpio_pin_set_dt :: "nat \<Rightarrow> int \<Rightarrow> world \<Rightarrow> world" where
  "gpio_pin_set_dt i v s =
     emit (GPIO_PIN_SET i v) (s\<lparr>level := (level s)(i := (v \<noteq> 0))\<rparr>)"

definition gpio_pin_toggle_dt :: "nat \<Rightarrow> world \<Rightarrow> world" where
  "gpio_pin_toggle_dt i s =
     emit (GPIO_PIN_TOGGLE i) (s\<lparr>level := (level s)(i := \<not> level s i)\<rparr>)"

definition k_msleep :: "int \<Rightarrow> world \<Rightarrow> world" where
  "k_msleep ms s = emit (K_MSLEEP ms) s"

subsection \<open>init_leds\<close>

text \<open>
  The loop of init_leds from index i on. The result is the returned int and the
  world at the return.
\<close>

function init_leds_from :: "platform \<Rightarrow> nat \<Rightarrow> world \<Rightarrow> int \<times> world" where
  "init_leds_from p i s =
     (if i < NUM_LEDS then
        (case gpio_is_ready_dt p i s of (rdy, s1) \<Rightarrow>
           if \<not> rdy then
             (- ENODEV p, emit (LOG_ERR ''LED%u GPIO device not ready'' [ArgU i]) s1)
           else
             (case gpio_pin_configure_dt p i GPIO_OUTPUT_INACTIVE s1 of (err, s2) \<Rightarrow>
                if err \<noteq> 0 then
                  (err, emit (LOG_ERR ''LED%u configure failed: %d'' [ArgU i, ArgD err]) s2)
                else init_leds_from p (Suc i) s2))
      else (0, s))"
  by pat_completeness auto
termination
  by (relation "measure (\<lambda>(p, i, s). NUM_LEDS - i)") auto

declare init_leds_from.simps [simp del]

definition init_leds :: "platform \<Rightarrow> world \<Rightarrow> int \<times> world" where
  "init_leds p s = init_leds_from p 0 s"

subsection \<open>startup_blink\<close>

text \<open>The two inner loops of startup_blink: every LED is set to v, from index i on.\<close>

function set_leds_from :: "int \<Rightarrow> nat \<Rightarrow> world \<Rightarrow> world" where
  "set_leds_from v i s =
     (if i < NUM_LEDS then set_leds_from v (Suc i) (gpio_pin_set_dt i v s) else s)"
  by pat_completeness auto
termination
  by (relation "measure (\<lambda>(v, i, s). NUM_LEDS - i)") auto

declare set_leds_from.simps [simp del]

text \<open>The body of the outer loop: all on, k_msleep(000), all off, k_msleep(100).\<close>

definition blink_cycle :: "world \<Rightarrow> world" where
  "blink_cycle s = k_msleep 100 (set_leds_from 0 0 (k_msleep 0 (set_leds_from 1 0 s)))"

function startup_blink_from :: "nat \<Rightarrow> world \<Rightarrow> world" where
  "startup_blink_from n s =
     (if n < STARTUP_FLASHES then startup_blink_from (Suc n) (blink_cycle s) else s)"
  by pat_completeness auto
termination
  by (relation "measure (\<lambda>(n, s). STARTUP_FLASHES - n)") auto

declare startup_blink_from.simps [simp del]

definition startup_blink :: "world \<Rightarrow> world" where
  "startup_blink s = startup_blink_from 0 s"

subsection \<open>do_chase_lap\<close>

text \<open>The body of both loops: toggle, hold for a step, toggle again.\<close>

definition toggle_pair :: "nat \<Rightarrow> world \<Rightarrow> world" where
  "toggle_pair i s = gpio_pin_toggle_dt i (k_msleep STEP_DELAY_MS (gpio_pin_toggle_dt i s))"

function chase_forward_from :: "nat \<Rightarrow> world \<Rightarrow> world" where
  "chase_forward_from i s =
     (if i < NUM_LEDS then chase_forward_from (Suc i) (toggle_pair i s) else s)"
  by pat_completeness auto
termination
  by (relation "measure (\<lambda>(i, s). NUM_LEDS - i)") auto

declare chase_forward_from.simps [simp del]

text \<open>
  The backward loop is \<^verbatim>\<open>for (size_t i = NUM_LEDS; i-- > 0; )\<close>: the test reads
  i, then i is decremented, and the body runs with the decremented value.
\<close>

function chase_backward_from :: "nat \<Rightarrow> world \<Rightarrow> world" where
  "chase_backward_from i s =
     (if i > 0 then chase_backward_from (i - 1) (toggle_pair (i - 1) s) else s)"
  by pat_completeness auto
termination
  by (relation "measure (\<lambda>(i, s). i)") auto

declare chase_backward_from.simps [simp del]

definition do_chase_lap :: "world \<Rightarrow> world" where
  "do_chase_lap s =
     k_msleep LAP_DELAY_MS (chase_backward_from NUM_LEDS (chase_forward_from 0 s))"

subsection \<open>main\<close>

text \<open>
  The loop \<^verbatim>\<open>for (;;) do_chase_lap();\<close> has no exit. It is run on fuel: the
  world after the first n laps.
\<close>

fun chase_laps :: "nat \<Rightarrow> world \<Rightarrow> world" where
  "chase_laps 0 s = s"
| "chase_laps (Suc n) s = chase_laps n (do_chase_lap s)"

text \<open>
  main with fuel n: the first component is Some e when main has returned e, and
  None when it is still in the chase loop after n laps.
\<close>

definition main :: "nat \<Rightarrow> platform \<Rightarrow> world \<Rightarrow> int option \<times> world" where
  "main n p s =
     (case init_leds p s of (err, s1) \<Rightarrow>
        if err \<noteq> 0 then
          (Some err, emit (PRINTK (''LED init failed: %d'' @ [CHR 0x0A]) [ArgD err]) s1)
        else
          (None,
           chase_laps n
             (startup_blink (emit (LOG_INF ''LEDs ready: %u'' [ArgU NUM_LEDS]) s1))))"

subsection \<open>Observations on traces and worlds\<close>

text \<open>The events a run has added to the trace: those of s' beyond the ones of s.\<close>

definition new_events :: "world \<Rightarrow> world \<Rightarrow> event list" where
  "new_events s s' = drop (length (trace s)) (trace s')"

text \<open>The logic levels of the LED set, in the order of \<^verbatim>\<open>leds[]\<close>.\<close>

definition led_levels :: "world \<Rightarrow> bool list" where
  "led_levels s = map (level s) [0..<NUM_LEDS]"

text \<open>The LED a driver call is about, and the LED a configuration call is about.\<close>

fun led_of :: "event \<Rightarrow> nat option" where
  "led_of (GPIO_IS_READY i) = Some i"
| "led_of (GPIO_PIN_CONFIGURE i f) = Some i"
| "led_of (GPIO_PIN_SET i v) = Some i"
| "led_of (GPIO_PIN_TOGGLE i) = Some i"
| "led_of e = None"

fun configured_led_of :: "event \<Rightarrow> nat option" where
  "configured_led_of (GPIO_PIN_CONFIGURE i f) = Some i"
| "configured_led_of e = None"

definition leds_touched :: "event list \<Rightarrow> nat set" where
  "leds_touched evs = set (List.map_filter led_of evs)"

definition leds_configure_called :: "event list \<Rightarrow> nat set" where
  "leds_configure_called evs = set (List.map_filter configured_led_of evs)"

fun is_LOG_INF :: "event \<Rightarrow> bool" where
  "is_LOG_INF (LOG_INF m a) = True"
| "is_LOG_INF e = False"

fun is_GPIO_PIN_TOGGLE :: "event \<Rightarrow> bool" where
  "is_GPIO_PIN_TOGGLE (GPIO_PIN_TOGGLE i) = True"
| "is_GPIO_PIN_TOGGLE e = False"

text \<open>The events of the blink and of the chase: pin writes, toggles and sleeps.\<close>

fun is_animation :: "event \<Rightarrow> bool" where
  "is_animation (GPIO_PIN_SET i v) = True"
| "is_animation (GPIO_PIN_TOGGLE i) = True"
| "is_animation (K_MSLEEP d) = True"
| "is_animation e = False"

text \<open>
  The durations of the sleeps a trace takes while every LED of the set is
  active: the trace is replayed on the levels lv, each write and toggle acting
  as the driver does.
\<close>

fun holds_all_active :: "(nat \<Rightarrow> bool) \<Rightarrow> event list \<Rightarrow> int list" where
  "holds_all_active lv [] = []"
| "holds_all_active lv (GPIO_PIN_SET i v # es) = holds_all_active (lv(i := (v \<noteq> 0))) es"
| "holds_all_active lv (GPIO_PIN_TOGGLE i # es) = holds_all_active (lv(i := \<not> lv i)) es"
| "holds_all_active lv (K_MSLEEP d # es) =
     (if list_all lv [0..<NUM_LEDS] then [d] else []) @ holds_all_active lv es"
| "holds_all_active lv (e # es) = holds_all_active lv es"

text \<open>
  The world once the first k LEDs have been found ready and configured: what
  k successful iterations of the loop of init_leds leave behind.
\<close>

fun configured_upto :: "nat \<Rightarrow> world \<Rightarrow> world" where
  "configured_upto 0 s = s"
| "configured_upto (Suc k) s =
     (let t = configured_upto k s in
      t\<lparr>trace := trace t @ [GPIO_IS_READY k, GPIO_PIN_CONFIGURE k GPIO_OUTPUT_INACTIVE],
        level := (level t)(k := False),
        is_output := (is_output t)(k := True)\<rparr>)"

subsection \<open>Concrete boards and worlds\<close>

text \<open>A fresh world: nothing configured, every line inactive, nothing traced.\<close>

definition world0 :: world where
  "world0 = \<lparr>level = (\<lambda>i. False), is_output = (\<lambda>i. False), trace = []\<rparr>"

text \<open>A world in which LED 1 and LED 3 are already active.\<close>

definition world_lit :: world where
  "world_lit = \<lparr>level = (\<lambda>i. i = 1 \<or> i = 3), is_output = (\<lambda>i. i < 4), trace = []\<rparr>"

text \<open>Four ready, configurable LEDs.\<close>

definition board_ok :: platform where
  "board_ok = \<lparr>device_ready = (\<lambda>i. True), configure_result = (\<lambda>i. 0), ENODEV = 19\<rparr>"

text \<open>LED 2 is not ready.\<close>

definition board_led2_not_ready :: platform where
  "board_led2_not_ready =
     \<lparr>device_ready = (\<lambda>i. i \<noteq> 2), configure_result = (\<lambda>i. 0), ENODEV = 19\<rparr>"

text \<open>LED 0 is not ready.\<close>

definition board_led0_not_ready :: platform where
  "board_led0_not_ready =
     \<lparr>device_ready = (\<lambda>i. i \<noteq> 0), configure_result = (\<lambda>i. 0), ENODEV = 19\<rparr>"

text \<open>Every LED is ready, and configuring LED 1 fails with the code -5.\<close>

definition board_led1_configure_fails :: platform where
  "board_led1_configure_fails =
     \<lparr>device_ready = (\<lambda>i. True),
      configure_result = (\<lambda>i. if i = 1 then - 5 else 0), ENODEV = 19\<rparr>"

text \<open>Every LED is ready, and configuring LED 0 fails with the code -5.\<close>

definition board_led0_configure_fails :: platform where
  "board_led0_configure_fails =
     \<lparr>device_ready = (\<lambda>i. True),
      configure_result = (\<lambda>i. if i = 0 then - 5 else 0), ENODEV = 19\<rparr>"

text \<open>Every LED is ready, and configuring LED 0 fails with the code -19.\<close>

definition board_led0_configure_fails_19 :: platform where
  "board_led0_configure_fails_19 =
     \<lparr>device_ready = (\<lambda>i. True),
      configure_result = (\<lambda>i. if i = 0 then - 19 else 0), ENODEV = 19\<rparr>"

text \<open>Configuring LED 0 fails with the code -5, and LED 1 is the first LED not ready.\<close>

definition board_led0_configure_fails_led1_not_ready :: platform where
  "board_led0_configure_fails_led1_not_ready =
     \<lparr>device_ready = (\<lambda>i. i \<noteq> 1),
      configure_result = (\<lambda>i. if i = 0 then - 5 else 0), ENODEV = 19\<rparr>"

section \<open>Facts about the driver calls and the loops\<close>

subsection \<open>What each call leaves in the world\<close>

lemma emit_sel [simp]:
  "trace (emit e s) = trace s @ [e]"
  "level (emit e s) = level s"
  "is_output (emit e s) = is_output s"
  by (simp_all add: emit_def)

lemma set_sel [simp]:
  "trace (gpio_pin_set_dt i v s) = trace s @ [GPIO_PIN_SET i v]"
  "level (gpio_pin_set_dt i v s) = (level s)(i := (v \<noteq> 0))"
  "is_output (gpio_pin_set_dt i v s) = is_output s"
  by (simp_all add: gpio_pin_set_dt_def)

lemma toggle_sel [simp]:
  "trace (gpio_pin_toggle_dt i s) = trace s @ [GPIO_PIN_TOGGLE i]"
  "level (gpio_pin_toggle_dt i s) = (level s)(i := \<not> level s i)"
  "is_output (gpio_pin_toggle_dt i s) = is_output s"
  by (simp_all add: gpio_pin_toggle_dt_def)

lemma sleep_sel [simp]:
  "trace (k_msleep d s) = trace s @ [K_MSLEEP d]"
  "level (k_msleep d s) = level s"
  "is_output (k_msleep d s) = is_output s"
  by (simp_all add: k_msleep_def)

lemma set_leds_from_unroll:
  "set_leds_from v 0 s =
     gpio_pin_set_dt 3 v (gpio_pin_set_dt 2 v (gpio_pin_set_dt 1 v (gpio_pin_set_dt 0 v s)))"
  by (simp add: set_leds_from.simps NUM_LEDS_def numeral_3_eq_3 numeral_2_eq_2)

lemma chase_forward_unroll:
  "chase_forward_from 0 s = toggle_pair 3 (toggle_pair 2 (toggle_pair 1 (toggle_pair 0 s)))"
  by (simp add: chase_forward_from.simps NUM_LEDS_def numeral_3_eq_3 numeral_2_eq_2)

lemma chase_backward_unroll:
  "chase_backward_from NUM_LEDS s = toggle_pair 0 (toggle_pair 1 (toggle_pair 2 (toggle_pair 3 s)))"
  by (simp add: chase_backward_from.simps NUM_LEDS_def)

lemma startup_blink_unroll: "startup_blink s = blink_cycle (blink_cycle s)"
  by (simp add: startup_blink_def startup_blink_from.simps STARTUP_FLASHES_def)

lemma toggle_pair_sel [simp]:
  "trace (toggle_pair i s) = trace s @ [GPIO_PIN_TOGGLE i, K_MSLEEP STEP_DELAY_MS, GPIO_PIN_TOGGLE i]"
  "level (toggle_pair i s) = level s"
  "is_output (toggle_pair i s) = is_output s"
  by (simp_all add: toggle_pair_def)

subsection \<open>The loop of init_leds\<close>

lemma new_events_append: "trace s' = trace s @ evs \<Longrightarrow> new_events s s' = evs"
  by (simp add: new_events_def)

lemma configured_upto_trace:
  "trace (configured_upto k s) =
     trace s @ concat (map (\<lambda>j. [GPIO_IS_READY j, GPIO_PIN_CONFIGURE j GPIO_OUTPUT_INACTIVE]) [0..<k])"
  by (induction k) (simp_all add: Let_def)

lemma configured_upto_level:
  "level (configured_upto k s) i = (if i < k then False else level s i)"
  by (induction k) (auto simp: Let_def)

lemma configured_upto_is_output:
  "is_output (configured_upto k s) i = (if i < k then True else is_output s i)"
  by (induction k) (auto simp: Let_def)

lemma init_leds_from_step:
  assumes "k < NUM_LEDS" "device_ready p k" "configure_result p k = 0"
  shows "init_leds_from p k (configured_upto k s) = init_leds_from p (Suc k) (configured_upto (Suc k) s)"
  using assms
  by (subst init_leds_from.simps)
     (simp add: gpio_is_ready_dt_def gpio_pin_configure_dt_def emit_def Let_def)

lemma init_leds_from_prefix:
  "k \<le> NUM_LEDS \<Longrightarrow> (\<forall>j<k. device_ready p j \<and> configure_result p j = 0) \<Longrightarrow>
     init_leds p s = init_leds_from p k (configured_upto k s)"
proof (induction k)
  case 0
  show ?case by (simp add: init_leds_def)
next
  case (Suc k)
  then have "init_leds p s = init_leds_from p k (configured_upto k s)" by simp
  also have "\<dots> = init_leds_from p (Suc k) (configured_upto (Suc k) s)"
    using Suc.prems by (intro init_leds_from_step) auto
  finally show ?case .
qed

lemma init_leds_from_done: "init_leds_from p NUM_LEDS s = (0, s)"
  by (subst init_leds_from.simps) simp

lemma init_leds_from_not_ready:
  "k < NUM_LEDS \<Longrightarrow> \<not> device_ready p k \<Longrightarrow>
   init_leds_from p k s =
     (- ENODEV p, emit (LOG_ERR ''LED%u GPIO device not ready'' [ArgU k]) (emit (GPIO_IS_READY k) s))"
  by (subst init_leds_from.simps) (simp add: gpio_is_ready_dt_def)

lemma init_leds_from_configure_fails:
  "k < NUM_LEDS \<Longrightarrow> device_ready p k \<Longrightarrow> configure_result p k \<noteq> 0 \<Longrightarrow>
   init_leds_from p k s =
     (configure_result p k,
      emit (LOG_ERR ''LED%u configure failed: %d'' [ArgU k, ArgD (configure_result p k)])
        (emit (GPIO_PIN_CONFIGURE k GPIO_OUTPUT_INACTIVE) (emit (GPIO_IS_READY k) s)))"
  by (subst init_leds_from.simps) (simp add: gpio_is_ready_dt_def gpio_pin_configure_dt_def Let_def)

lemma upt_NUM_LEDS: "[0..<NUM_LEDS] = [0, 1, 2, 3]"
  by (simp add: NUM_LEDS_def upt_rec)

lemma less_NUM_LEDS: "i < NUM_LEDS \<longleftrightarrow> i = 0 \<or> i = 1 \<or> i = 2 \<or> i = 3"
  by (auto simp: NUM_LEDS_def)

lemma leds_touched_append: "leds_touched (xs @ ys) = leds_touched xs \<union> leds_touched ys"
  by (simp add: leds_touched_def List.map_filter_def)

lemma leds_configure_called_append:
  "leds_configure_called (xs @ ys) = leds_configure_called xs \<union> leds_configure_called ys"
  by (simp add: leds_configure_called_def List.map_filter_def)

lemma leds_touched_prefix:
  "leds_touched (concat (map (\<lambda>j. [GPIO_IS_READY j, GPIO_PIN_CONFIGURE j f]) [0..<k])) = {..<k}"
  by (induction k) (auto simp: leds_touched_def List.map_filter_def)

lemma leds_configure_called_prefix:
  "leds_configure_called (concat (map (\<lambda>j. [GPIO_IS_READY j, GPIO_PIN_CONFIGURE j f]) [0..<k])) = {..<k}"
  by (induction k) (auto simp: leds_configure_called_def List.map_filter_def)


subsection \<open>The events of init_leds on any board\<close>

lemma init_leds_from_events:
  "\<exists>evs. trace (snd (init_leds_from p i s)) = trace s @ evs \<and>
         filter is_animation evs = [] \<and> filter is_LOG_INF evs = []"
proof (induction p i s rule: init_leds_from.induct)
  case (1 p i s)
  show ?case
  proof (cases "i < NUM_LEDS \<and> device_ready p i \<and> configure_result p i = 0")
    case True
    let ?s2 = "snd (gpio_pin_configure_dt p i GPIO_OUTPUT_INACTIVE (emit (GPIO_IS_READY i) s))"
    have step: "init_leds_from p i s = init_leds_from p (Suc i) ?s2"
      using True
      by (subst init_leds_from.simps) (simp add: gpio_is_ready_dt_def gpio_pin_configure_dt_def Let_def)
    have "\<exists>evs. trace (snd (init_leds_from p (Suc i) ?s2)) = trace ?s2 @ evs \<and>
         filter is_animation evs = [] \<and> filter is_LOG_INF evs = []"
      using True
      by (intro "1.IH" [of "device_ready p i" "emit (GPIO_IS_READY i) s" 0 ?s2])
         (simp_all add: gpio_is_ready_dt_def gpio_pin_configure_dt_def Let_def)
    then obtain evs where "trace (snd (init_leds_from p (Suc i) ?s2)) = trace ?s2 @ evs"
      and "filter is_animation evs = []" and "filter is_LOG_INF evs = []"
      by blast
    then show ?thesis
      using True unfolding step
      by (simp add: gpio_pin_configure_dt_def Let_def)
  next
    case False
    then show ?thesis
      by (subst init_leds_from.simps)
         (auto simp: gpio_is_ready_dt_def gpio_pin_configure_dt_def Let_def)
  qed
qed

lemma init_leds_events:
  "\<exists>evs. trace (snd (init_leds p s)) = trace s @ evs \<and>
         filter is_animation evs = [] \<and> filter is_LOG_INF evs = []"
  unfolding init_leds_def by (rule init_leds_from_events)

lemma init_leds_board_ok: "init_leds board_ok world0 = (0, configured_upto NUM_LEDS world0)"
  using init_leds_from_prefix [of NUM_LEDS board_ok world0]
  by (simp add: init_leds_from_done board_ok_def)

lemma init_leds_board_led2_not_ready:
  "init_leds board_led2_not_ready world0 =
     (- 19, emit (LOG_ERR ''LED%u GPIO device not ready'' [ArgU 2])
              (emit (GPIO_IS_READY 2) (configured_upto 2 world0)))"
  using init_leds_from_prefix [of 2 board_led2_not_ready world0]
    init_leds_from_not_ready [of 2 board_led2_not_ready "configured_upto 2 world0"]
  by (simp add: board_led2_not_ready_def NUM_LEDS_def)

subsection \<open>The loops of startup_blink and do_chase_lap\<close>

lemma set_leds_from_level:
  "level (set_leds_from v 0 s) = (\<lambda>i. if i < NUM_LEDS then v \<noteq> 0 else level s i)"
  by (rule ext) (simp add: set_leds_from_unroll less_NUM_LEDS)

lemma set_leds_from_trace:
  "trace (set_leds_from v 0 s) =
     trace s @ [GPIO_PIN_SET 0 v, GPIO_PIN_SET 1 v, GPIO_PIN_SET 2 v, GPIO_PIN_SET 3 v]"
  by (simp add: set_leds_from_unroll)

lemma blink_cycle_trace:
  "trace (blink_cycle s) = trace s @
     [GPIO_PIN_SET 0 1, GPIO_PIN_SET 1 1, GPIO_PIN_SET 2 1, GPIO_PIN_SET 3 1, K_MSLEEP 0,
      GPIO_PIN_SET 0 0, GPIO_PIN_SET 1 0, GPIO_PIN_SET 2 0, GPIO_PIN_SET 3 0, K_MSLEEP 100]"
  by (simp add: blink_cycle_def set_leds_from_trace)

lemma blink_cycle_level:
  "level (blink_cycle s) = (\<lambda>i. if i < NUM_LEDS then False else level s i)"
  by (rule ext) (simp add: blink_cycle_def set_leds_from_level)

lemma blink_cycle_is_output: "is_output (blink_cycle s) = is_output s"
  by (simp add: blink_cycle_def set_leds_from_unroll)

lemma startup_blink_trace:
  "trace (startup_blink s) = trace s @
     [GPIO_PIN_SET 0 1, GPIO_PIN_SET 1 1, GPIO_PIN_SET 2 1, GPIO_PIN_SET 3 1, K_MSLEEP 0,
      GPIO_PIN_SET 0 0, GPIO_PIN_SET 1 0, GPIO_PIN_SET 2 0, GPIO_PIN_SET 3 0, K_MSLEEP 100,
      GPIO_PIN_SET 0 1, GPIO_PIN_SET 1 1, GPIO_PIN_SET 2 1, GPIO_PIN_SET 3 1, K_MSLEEP 0,
      GPIO_PIN_SET 0 0, GPIO_PIN_SET 1 0, GPIO_PIN_SET 2 0, GPIO_PIN_SET 3 0, K_MSLEEP 100]"
  by (simp add: startup_blink_unroll blink_cycle_trace)

lemma startup_blink_level:
  "level (startup_blink s) = (\<lambda>i. if i < NUM_LEDS then False else level s i)"
  by (rule ext) (simp add: startup_blink_unroll blink_cycle_level)

lemma do_chase_lap_level: "level (do_chase_lap s) = level s"
  by (simp add: do_chase_lap_def chase_forward_unroll chase_backward_unroll)

lemma do_chase_lap_trace:
  "trace (do_chase_lap s) = trace s @
     concat (map (\<lambda>i. [GPIO_PIN_TOGGLE i, K_MSLEEP 150, GPIO_PIN_TOGGLE i])
               ([0, 1, 2, 3] @ [3, 2, 1, 0]))
     @ [K_MSLEEP 400]"
  by (simp add: do_chase_lap_def chase_forward_unroll chase_backward_unroll
      STEP_DELAY_MS_def LAP_DELAY_MS_def)

lemma chase_laps_level: "level (chase_laps n s) = level s"
  by (induction n arbitrary: s) (simp_all add: do_chase_lap_level)

lemma chase_laps_Suc: "chase_laps (Suc n) s = do_chase_lap (chase_laps n s)"
  by (induction n arbitrary: s) simp_all

lemma chase_laps_events:
  "\<exists>evs. trace (chase_laps n s) = trace s @ evs \<and> filter is_LOG_INF evs = []"
proof (induction n arbitrary: s)
  case 0
  show ?case by simp
next
  case (Suc n)
  obtain evs where "trace (chase_laps n (do_chase_lap s)) = trace (do_chase_lap s) @ evs"
    and "filter is_LOG_INF evs = []"
    using Suc.IH by blast
  then show ?case by (simp add: do_chase_lap_trace)
qed

section \<open>Initialisation\<close>

text \<open>
  C1. With the four LEDs of the set, if every LED reports ready and its
  configuration call succeeds, init_leds returns 0, and the calls it makes are,
  for each LED in order, one readiness check and one configuration as an output
  at the inactive level: each LED is configured exactly once with
  \<^verbatim>\<open>GPIO_OUTPUT_INACTIVE\<close>, never with another flag, and is an inactive
  output at the return.
\<close>

theorem init_leds_all_ready:
  assumes "\<forall>i<NUM_LEDS. device_ready p i \<and> configure_result p i = 0"
  shows "let s' = snd (init_leds p s); evs = new_events s s' in
         fst (init_leds p s) = 0 \<and>
         trace s' = trace s @ evs \<and>
         evs = [GPIO_IS_READY 0, GPIO_PIN_CONFIGURE 0 GPIO_OUTPUT_INACTIVE,
                GPIO_IS_READY 1, GPIO_PIN_CONFIGURE 1 GPIO_OUTPUT_INACTIVE,
                GPIO_IS_READY 2, GPIO_PIN_CONFIGURE 2 GPIO_OUTPUT_INACTIVE,
                GPIO_IS_READY 3, GPIO_PIN_CONFIGURE 3 GPIO_OUTPUT_INACTIVE] \<and>
         (\<forall>i<NUM_LEDS. count_list evs (GPIO_PIN_CONFIGURE i GPIO_OUTPUT_INACTIVE) = 1 \<and>
                       count_list evs (GPIO_PIN_CONFIGURE i GPIO_OUTPUT_ACTIVE) = 0 \<and>
                       is_output s' i \<and> \<not> level s' i)"
proof -
  have run: "init_leds p s = (0, configured_upto NUM_LEDS s)"
    using init_leds_from_prefix [of NUM_LEDS p s] assms
    by (simp add: init_leds_from_done)
  have tr: "trace (configured_upto NUM_LEDS s) = trace s @
      [GPIO_IS_READY 0, GPIO_PIN_CONFIGURE 0 GPIO_OUTPUT_INACTIVE,
       GPIO_IS_READY 1, GPIO_PIN_CONFIGURE 1 GPIO_OUTPUT_INACTIVE,
       GPIO_IS_READY 2, GPIO_PIN_CONFIGURE 2 GPIO_OUTPUT_INACTIVE,
       GPIO_IS_READY 3, GPIO_PIN_CONFIGURE 3 GPIO_OUTPUT_INACTIVE]"
    by (simp add: configured_upto_trace upt_NUM_LEDS)
  show ?thesis
    unfolding Let_def run fst_conv snd_conv new_events_append [OF tr]
    by (simp add: tr configured_upto_level configured_upto_is_output less_NUM_LEDS)
qed

text \<open>The board with four ready, configurable LEDs, from the fresh world (C1).\<close>

theorem init_leds_all_ready_witness:
  "device_ready board_ok 0 \<and> configure_result board_ok 3 = 0 \<and>
   fst (init_leds board_ok world0) = 0 \<and>
   trace (snd (init_leds board_ok world0)) =
     [GPIO_IS_READY 0, GPIO_PIN_CONFIGURE 0 GPIO_OUTPUT_INACTIVE,
      GPIO_IS_READY 1, GPIO_PIN_CONFIGURE 1 GPIO_OUTPUT_INACTIVE,
      GPIO_IS_READY 2, GPIO_PIN_CONFIGURE 2 GPIO_OUTPUT_INACTIVE,
      GPIO_IS_READY 3, GPIO_PIN_CONFIGURE 3 GPIO_OUTPUT_INACTIVE] \<and>
   led_levels (snd (init_leds board_ok world0)) = [False, False, False, False]"
  using init_leds_all_ready [of board_ok world0]
  by (simp add: board_ok_def world0_def Let_def led_levels_def upt_NUM_LEDS less_NUM_LEDS)

text \<open>
  C2, as the claim states it, fails: when configuring LED 0 fails with -5 and
  LED 1 is the first LED that is not ready, init_leds stops at LED 0. It
  returns -5 and not the not-ready code, LED 1 is never asked whether it is
  ready, no message names index 1, and LED 0, the LED before index 1, is not
  configured.
\<close>

theorem init_leds_not_ready_counterexample:
  "device_ready board_led0_configure_fails_led1_not_ready 0 \<and>
   \<not> device_ready board_led0_configure_fails_led1_not_ready 1 \<and>
   fst (init_leds board_led0_configure_fails_led1_not_ready world0) = - 5 \<and>
   fst (init_leds board_led0_configure_fails_led1_not_ready world0)
     \<noteq> - ENODEV board_led0_configure_fails_led1_not_ready \<and>
   trace (snd (init_leds board_led0_configure_fails_led1_not_ready world0)) =
     [GPIO_IS_READY 0, GPIO_PIN_CONFIGURE 0 GPIO_OUTPUT_INACTIVE,
      LOG_ERR ''LED%u configure failed: %d'' [ArgU 0, ArgD (- 5)]] \<and>
   \<not> is_output (snd (init_leds board_led0_configure_fails_led1_not_ready world0)) 0"
  by (simp add: init_leds_def init_leds_from_configure_fails NUM_LEDS_def
      board_led0_configure_fails_led1_not_ready_def world0_def)

text \<open>
  C2, amended. For every index k below \<^verbatim>\<open>NUM_LEDS\<close>, if LED k is not ready
  and every LED before k is ready and configures successfully, then init_leds
  returns the not-ready code \<^verbatim>\<open>-ENODEV\<close>, and the last thing it does is to
  log the error message that names index k. The driver calls it makes are one
  readiness check and one configuration for each LED before k, and the
  readiness check of LED k: no LED after k is touched, LED k itself is not
  configured, and every LED before k is an inactive output.
\<close>

theorem init_leds_not_ready:
  assumes "k < NUM_LEDS" and "\<not> device_ready p k"
    and "\<forall>j<k. device_ready p j \<and> configure_result p j = 0"
  shows "let s' = snd (init_leds p s); evs = new_events s s' in
         fst (init_leds p s) = - ENODEV p \<and>
         trace s' = trace s @ evs \<and>
         evs = concat (map (\<lambda>j. [GPIO_IS_READY j, GPIO_PIN_CONFIGURE j GPIO_OUTPUT_INACTIVE]) [0..<k])
               @ [GPIO_IS_READY k, LOG_ERR ''LED%u GPIO device not ready'' [ArgU k]] \<and>
         leds_touched evs = {..k} \<and>
         leds_configure_called evs = {..<k} \<and>
         (\<forall>j<k. is_output s' j \<and> \<not> level s' j) \<and>
         (\<forall>j\<ge>k. is_output s' j = is_output s j \<and> level s' j = level s j)"
proof -
  let ?t = "configured_upto k s"
  let ?evs = "concat (map (\<lambda>j. [GPIO_IS_READY j, GPIO_PIN_CONFIGURE j GPIO_OUTPUT_INACTIVE]) [0..<k])
               @ [GPIO_IS_READY k, LOG_ERR ''LED%u GPIO device not ready'' [ArgU k]]"
  have run: "init_leds p s =
      (- ENODEV p, emit (LOG_ERR ''LED%u GPIO device not ready'' [ArgU k]) (emit (GPIO_IS_READY k) ?t))"
    using init_leds_from_prefix [of k p s] assms
    by (simp add: init_leds_from_not_ready)
  have tr: "trace (emit (LOG_ERR ''LED%u GPIO device not ready'' [ArgU k]) (emit (GPIO_IS_READY k) ?t))
      = trace s @ ?evs"
    by (simp add: configured_upto_trace)
  have touched: "leds_touched ?evs = {..k}"
    by (auto simp: leds_touched_append leds_touched_prefix) (auto simp: leds_touched_def List.map_filter_def)
  have called: "leds_configure_called ?evs = {..<k}"
    by (simp add: leds_configure_called_append leds_configure_called_prefix)
       (simp add: leds_configure_called_def List.map_filter_def)
  show ?thesis
    unfolding Let_def run fst_conv snd_conv new_events_append [OF tr] touched called
    by (simp add: configured_upto_trace configured_upto_level configured_upto_is_output)
qed

text \<open>LED 2 is the first LED not ready, from the fresh world (C2).\<close>

theorem init_leds_not_ready_witness:
  "2 < NUM_LEDS \<and> \<not> device_ready board_led2_not_ready 2 \<and>
   fst (init_leds board_led2_not_ready world0) = - 19 \<and>
   trace (snd (init_leds board_led2_not_ready world0)) =
     [GPIO_IS_READY 0, GPIO_PIN_CONFIGURE 0 GPIO_OUTPUT_INACTIVE,
      GPIO_IS_READY 1, GPIO_PIN_CONFIGURE 1 GPIO_OUTPUT_INACTIVE,
      GPIO_IS_READY 2, LOG_ERR ''LED%u GPIO device not ready'' [ArgU 2]]"
  using init_leds_not_ready [of 2 board_led2_not_ready world0]
  by (simp add: board_led2_not_ready_def world0_def Let_def NUM_LEDS_def upt_rec)

text \<open>
  C3, as the claim states it, fails: the value init_leds returns carries the
  code and not the index. A configuration failure with -5 at LED 0 and one
  with -5 at LED 1 return the same value, although their last log messages
  name different indices; and a configuration failure with -19 at LED 0
  returns the very value of a run in which LED 0 is not ready, so the value
  does not tell the kind of failure either.
\<close>

theorem init_leds_configure_fails_counterexample:
  "configure_result board_led0_configure_fails 0 = - 5 \<and>
   configure_result board_led1_configure_fails 1 = - 5 \<and>
   fst (init_leds board_led0_configure_fails world0) = - 5 \<and>
   fst (init_leds board_led1_configure_fails world0) = - 5 \<and>
   fst (init_leds board_led0_configure_fails world0) =
     fst (init_leds board_led1_configure_fails world0) \<and>
   last (trace (snd (init_leds board_led0_configure_fails world0))) =
     LOG_ERR ''LED%u configure failed: %d'' [ArgU 0, ArgD (- 5)] \<and>
   last (trace (snd (init_leds board_led1_configure_fails world0))) =
     LOG_ERR ''LED%u configure failed: %d'' [ArgU 1, ArgD (- 5)] \<and>
   device_ready board_led0_configure_fails_19 0 \<and>
   \<not> device_ready board_led0_not_ready 0 \<and>
   fst (init_leds board_led0_configure_fails_19 world0) =
     fst (init_leds board_led0_not_ready world0)"
proof -
  have at0: "init_leds board_led0_configure_fails world0 =
      (- 5, emit (LOG_ERR ''LED%u configure failed: %d'' [ArgU 0, ArgD (- 5)])
              (emit (GPIO_PIN_CONFIGURE 0 GPIO_OUTPUT_INACTIVE)
                 (emit (GPIO_IS_READY 0) world0)))"
    using init_leds_from_configure_fails [of 0 board_led0_configure_fails world0]
    by (simp add: init_leds_def board_led0_configure_fails_def NUM_LEDS_def)
  have at1: "init_leds board_led1_configure_fails world0 =
      (- 5, emit (LOG_ERR ''LED%u configure failed: %d'' [ArgU 1, ArgD (- 5)])
              (emit (GPIO_PIN_CONFIGURE 1 GPIO_OUTPUT_INACTIVE)
                 (emit (GPIO_IS_READY 1) (configured_upto 1 world0))))"
    using init_leds_from_prefix [of 1 board_led1_configure_fails world0]
      init_leds_from_configure_fails
        [of 1 board_led1_configure_fails "configured_upto 1 world0"]
    by (simp add: board_led1_configure_fails_def NUM_LEDS_def)
  have cfg19: "fst (init_leds board_led0_configure_fails_19 world0) = - 19"
    using init_leds_from_configure_fails [of 0 board_led0_configure_fails_19 world0]
    by (simp add: init_leds_def board_led0_configure_fails_19_def NUM_LEDS_def)
  have nr19: "fst (init_leds board_led0_not_ready world0) = - 19"
    using init_leds_from_not_ready [of 0 board_led0_not_ready world0]
    by (simp add: init_leds_def board_led0_not_ready_def NUM_LEDS_def)
  show ?thesis
    by (simp add: at0 at1 cfg19 nr19)
       (simp add: board_led0_configure_fails_def board_led1_configure_fails_def
          board_led0_configure_fails_19_def board_led0_not_ready_def)
qed

text \<open>
  C3, amended. For every index i below \<^verbatim>\<open>NUM_LEDS\<close>, if LED i is ready and
  its configuration call fails with the code e (e is not 0), every earlier LED
  having been ready and configured, then init_leds returns at once, and the
  value it returns is exactly e: the index is not part of it. The only thing
  init_leds does after the failed call is to log the error message that
  carries both the index i and the code e. No configuration call is made for
  an LED after i, and no LED from i on has changed.
\<close>

theorem init_leds_configure_fails:
  assumes "i < NUM_LEDS" and "device_ready p i"
    and "configure_result p i = e" and "e \<noteq> 0"
    and "\<forall>j<i. device_ready p j \<and> configure_result p j = 0"
  shows "let s' = snd (init_leds p s); evs = new_events s s' in
         fst (init_leds p s) = e \<and>
         trace s' = trace s @ evs \<and>
         evs = concat (map (\<lambda>j. [GPIO_IS_READY j, GPIO_PIN_CONFIGURE j GPIO_OUTPUT_INACTIVE]) [0..<i])
               @ [GPIO_IS_READY i, GPIO_PIN_CONFIGURE i GPIO_OUTPUT_INACTIVE,
                  LOG_ERR ''LED%u configure failed: %d'' [ArgU i, ArgD e]] \<and>
         last (trace s') = LOG_ERR ''LED%u configure failed: %d'' [ArgU i, ArgD e] \<and>
         leds_touched evs = {..i} \<and>
         leds_configure_called evs = {..i} \<and>
         (\<forall>j\<ge>i. is_output s' j = is_output s j \<and> level s' j = level s j)"
proof -
  let ?t = "configured_upto i s"
  let ?msg = "LOG_ERR ''LED%u configure failed: %d'' [ArgU i, ArgD e]"
  let ?evs = "concat (map (\<lambda>j. [GPIO_IS_READY j, GPIO_PIN_CONFIGURE j GPIO_OUTPUT_INACTIVE]) [0..<i])
               @ [GPIO_IS_READY i, GPIO_PIN_CONFIGURE i GPIO_OUTPUT_INACTIVE, ?msg]"
  let ?s' = "emit ?msg (emit (GPIO_PIN_CONFIGURE i GPIO_OUTPUT_INACTIVE) (emit (GPIO_IS_READY i) ?t))"
  have run: "init_leds p s = (e, ?s')"
    using init_leds_from_prefix [of i p s] init_leds_from_configure_fails [of i p ?t] assms
    by simp
  have tr: "trace ?s' = trace s @ ?evs"
    by (simp add: configured_upto_trace)
  have touched: "leds_touched ?evs = {..i}"
    by (auto simp: leds_touched_append leds_touched_prefix) (auto simp: leds_touched_def List.map_filter_def)
  have called: "leds_configure_called ?evs = {..i}"
    by (auto simp: leds_configure_called_append leds_configure_called_prefix)
       (auto simp: leds_configure_called_def List.map_filter_def)
  show ?thesis
    unfolding Let_def run fst_conv snd_conv new_events_append [OF tr] touched called
    by (simp add: configured_upto_trace configured_upto_level configured_upto_is_output)
qed

text \<open>Configuring LED 1 fails with -5, from the fresh world (C3).\<close>

theorem init_leds_configure_fails_witness:
  "1 < NUM_LEDS \<and> device_ready board_led1_configure_fails 1 \<and>
   configure_result board_led1_configure_fails 1 = - 5 \<and>
   fst (init_leds board_led1_configure_fails world0) = - 5 \<and>
   trace (snd (init_leds board_led1_configure_fails world0)) =
     [GPIO_IS_READY 0, GPIO_PIN_CONFIGURE 0 GPIO_OUTPUT_INACTIVE,
      GPIO_IS_READY 1, GPIO_PIN_CONFIGURE 1 GPIO_OUTPUT_INACTIVE,
      LOG_ERR ''LED%u configure failed: %d'' [ArgU 1, ArgD (- 5)]]"
  using init_leds_configure_fails [of 1 board_led1_configure_fails "- 5" world0]
  by (simp add: board_led1_configure_fails_def world0_def Let_def NUM_LEDS_def upt_rec)

text \<open>
  C10. The value init_leds returns for a not-ready LED is \<^verbatim>\<open>-ENODEV\<close>
  whatever the index: a run that fails at index j and a run that fails at index
  k, on boards with the same errno constant, return equal values. The index is
  only in the log message, the last event of each run.
\<close>

theorem init_leds_not_ready_same_code:
  assumes "j < NUM_LEDS" and "\<not> device_ready p j"
    and "\<forall>m<j. device_ready p m \<and> configure_result p m = 0"
    and "k < NUM_LEDS" and "\<not> device_ready q k"
    and "\<forall>m<k. device_ready q m \<and> configure_result q m = 0"
    and "ENODEV q = ENODEV p"
  shows "fst (init_leds p s) = - ENODEV p \<and>
         fst (init_leds q t) = - ENODEV p \<and>
         fst (init_leds p s) = fst (init_leds q t) \<and>
         last (trace (snd (init_leds p s))) = LOG_ERR ''LED%u GPIO device not ready'' [ArgU j] \<and>
         last (trace (snd (init_leds q t))) = LOG_ERR ''LED%u GPIO device not ready'' [ArgU k]"
proof -
  have "init_leds p s = (- ENODEV p,
      emit (LOG_ERR ''LED%u GPIO device not ready'' [ArgU j])
        (emit (GPIO_IS_READY j) (configured_upto j s)))"
    using init_leds_from_prefix [of j p s] assms(1-3)
    by (simp add: init_leds_from_not_ready)
  moreover have "init_leds q t = (- ENODEV q,
      emit (LOG_ERR ''LED%u GPIO device not ready'' [ArgU k])
        (emit (GPIO_IS_READY k) (configured_upto k t)))"
    using init_leds_from_prefix [of k q t] assms(4-6)
    by (simp add: init_leds_from_not_ready)
  ultimately show ?thesis
    using assms(7) by simp
qed

text \<open>LED 0 not ready on one board, LED 2 not ready on another: both runs return -19 (C10).\<close>

theorem init_leds_not_ready_same_code_witness:
  "\<not> device_ready board_led0_not_ready 0 \<and> \<not> device_ready board_led2_not_ready 2 \<and>
   fst (init_leds board_led0_not_ready world0) = - 19 \<and>
   fst (init_leds board_led2_not_ready world_lit) = - 19 \<and>
   last (trace (snd (init_leds board_led0_not_ready world0))) =
     LOG_ERR ''LED%u GPIO device not ready'' [ArgU 0] \<and>
   last (trace (snd (init_leds board_led2_not_ready world_lit))) =
     LOG_ERR ''LED%u GPIO device not ready'' [ArgU 2]"
  using init_leds_not_ready_same_code
    [of 0 board_led0_not_ready 2 board_led2_not_ready world0 world_lit]
  by (simp add: board_led0_not_ready_def board_led2_not_ready_def NUM_LEDS_def)

section \<open>The startup blink\<close>

text \<open>
  C6. startup_blink, whose flash count is 2, runs the cycle exactly twice. One
  cycle sets every LED of the set to active (after which all four are active),
  then sets every LED to inactive and holds for 100 ms; nothing else is done.
  At the return every LED is inactive.
\<close>

theorem startup_blink_two_cycles:
  "startup_blink s = blink_cycle (blink_cycle s) \<and>
   new_events s (blink_cycle s) =
     [GPIO_PIN_SET 0 1, GPIO_PIN_SET 1 1, GPIO_PIN_SET 2 1, GPIO_PIN_SET 3 1, K_MSLEEP 0,
      GPIO_PIN_SET 0 0, GPIO_PIN_SET 1 0, GPIO_PIN_SET 2 0, GPIO_PIN_SET 3 0, K_MSLEEP 100] \<and>
   new_events s (startup_blink s) =
     concat (replicate 2
       [GPIO_PIN_SET 0 1, GPIO_PIN_SET 1 1, GPIO_PIN_SET 2 1, GPIO_PIN_SET 3 1, K_MSLEEP 0,
        GPIO_PIN_SET 0 0, GPIO_PIN_SET 1 0, GPIO_PIN_SET 2 0, GPIO_PIN_SET 3 0, K_MSLEEP 100]) \<and>
   trace (startup_blink s) = trace s @ new_events s (startup_blink s) \<and>
   led_levels (set_leds_from 1 0 s) = [True, True, True, True] \<and>
   led_levels (blink_cycle s) = [False, False, False, False] \<and>
   led_levels (startup_blink s) = [False, False, False, False]"
proof -
  have two: "trace (startup_blink s) = trace s @ concat (replicate 2
       [GPIO_PIN_SET 0 1, GPIO_PIN_SET 1 1, GPIO_PIN_SET 2 1, GPIO_PIN_SET 3 1, K_MSLEEP 0,
        GPIO_PIN_SET 0 0, GPIO_PIN_SET 1 0, GPIO_PIN_SET 2 0, GPIO_PIN_SET 3 0, K_MSLEEP 100])"
    by (simp add: startup_blink_trace numeral_2_eq_2)
  show ?thesis
    unfolding new_events_append [OF two] new_events_append [OF blink_cycle_trace]
    by (simp add: two startup_blink_unroll [symmetric] led_levels_def upt_NUM_LEDS
        set_leds_from_level blink_cycle_level startup_blink_level less_NUM_LEDS)
qed

text \<open>
  C7. In every cycle of startup_blink the sleep taken while all LEDs are active,
  between the writes of 1 and the writes of 0, lasts 0 ms: the sleeps of one
  call are, in order, 0, 100, 0 and 100 ms, and the two taken with every LED
  active are the two of 0 ms.
\<close>

theorem startup_blink_on_hold_zero:
  "holds_all_active (level s) (new_events s (blink_cycle s)) = [0] \<and>
   holds_all_active (level s) (new_events s (startup_blink s)) = [0, 0] \<and>
   [d. K_MSLEEP d \<leftarrow> new_events s (startup_blink s)] = [0, 100, 0, 100]"
  unfolding new_events_append [OF startup_blink_trace] new_events_append [OF blink_cycle_trace]
  by (simp add: upt_NUM_LEDS)

text \<open>
  C9. Whatever the levels of the LEDs before the call, every LED of the set is
  inactive when startup_blink returns, and no other line has changed:
  startup_blink writes levels and never toggles.
\<close>

theorem startup_blink_all_inactive:
  "led_levels (startup_blink s) = replicate NUM_LEDS False \<and>
   level (startup_blink s) = (\<lambda>i. if i < NUM_LEDS then False else level s i) \<and>
   filter is_GPIO_PIN_TOGGLE (new_events s (startup_blink s)) = []"
  unfolding new_events_append [OF startup_blink_trace]
  by (simp add: led_levels_def startup_blink_level upt_NUM_LEDS) (simp add: NUM_LEDS_def numeral_eq_Suc)

text \<open>From a world in which LED 1 and LED 3 start active (C9).\<close>

theorem startup_blink_all_inactive_witness:
  "led_levels world_lit = [False, True, False, True] \<and>
   led_levels (startup_blink world_lit) = [False, False, False, False]"
  using startup_blink_all_inactive [of world_lit]
  by (simp add: led_levels_def upt_NUM_LEDS world_lit_def) (simp add: NUM_LEDS_def numeral_eq_Suc)

section \<open>The chase\<close>

text \<open>
  C4. do_chase_lap is state-neutral. For every assignment of levels, a toggle, a
  hold and a second toggle of the same LED restore the levels (the hold changes
  no level: nothing else acts on the lines), so the levels after one lap, and
  after any number n of consecutive laps, are the levels before the first.
\<close>

theorem chase_lap_state_neutral:
  "level (gpio_pin_toggle_dt i (k_msleep d (gpio_pin_toggle_dt i s))) = level s \<and>
   level (toggle_pair i s) = level s \<and>
   level (do_chase_lap s) = level s \<and>
   level (chase_laps n s) = level s \<and>
   led_levels (chase_laps n s) = led_levels s"
  by (simp add: do_chase_lap_level chase_laps_level led_levels_def)

text \<open>Three laps from a world in which LED 1 and LED 3 are active (C4).\<close>

theorem chase_lap_state_neutral_witness:
  "led_levels world_lit = [False, True, False, True] \<and>
   led_levels (chase_laps 3 world_lit) = [False, True, False, True]"
  using chase_lap_state_neutral [of 0 0 world_lit 3]
  by (simp add: led_levels_def upt_NUM_LEDS world_lit_def)

text \<open>
  C5. One call of do_chase_lap performs, in the forward phase, a toggle, a hold
  of 150 ms and a toggle at the indices 0, 1, 2, 3 in this order, then in the
  backward phase the same at the indices 3, 2, 1, 0, both ends included: 8
  toggle pairs, 16 toggles. A hold of 400 ms follows, and is the last event
  of the call.
\<close>

theorem chase_lap_order:
  "new_events s (chase_forward_from 0 s) =
     concat (map (\<lambda>i. [GPIO_PIN_TOGGLE i, K_MSLEEP 150, GPIO_PIN_TOGGLE i]) [0, 1, 2, 3]) \<and>
   new_events s (chase_backward_from NUM_LEDS s) =
     concat (map (\<lambda>i. [GPIO_PIN_TOGGLE i, K_MSLEEP 150, GPIO_PIN_TOGGLE i]) [3, 2, 1, 0]) \<and>
   new_events s (do_chase_lap s) =
     concat (map (\<lambda>i. [GPIO_PIN_TOGGLE i, K_MSLEEP 150, GPIO_PIN_TOGGLE i])
               ([0, 1, 2, 3] @ [3, 2, 1, 0]))
     @ [K_MSLEEP 400] \<and>
   trace (do_chase_lap s) = trace s @ new_events s (do_chase_lap s) \<and>
   length (filter is_GPIO_PIN_TOGGLE (new_events s (do_chase_lap s))) = 2 * 8"
proof -
  have fwd: "trace (chase_forward_from 0 s) = trace s @
      concat (map (\<lambda>i. [GPIO_PIN_TOGGLE i, K_MSLEEP 150, GPIO_PIN_TOGGLE i]) [0, 1, 2, 3])"
    by (simp add: chase_forward_unroll STEP_DELAY_MS_def)
  have bwd: "trace (chase_backward_from NUM_LEDS s) = trace s @
      concat (map (\<lambda>i. [GPIO_PIN_TOGGLE i, K_MSLEEP 150, GPIO_PIN_TOGGLE i]) [3, 2, 1, 0])"
    by (simp add: chase_backward_unroll STEP_DELAY_MS_def)
  show ?thesis
    unfolding new_events_append [OF fwd] new_events_append [OF bwd]
      new_events_append [OF do_chase_lap_trace]
    by (simp add: do_chase_lap_trace)
qed

section \<open>The entry point\<close>

text \<open>
  C8. If init_leds returns a code e other than 0, main prints the failure with
  printk, returns exactly e, whatever the fuel, and the whole run contains no
  pin write, no toggle, no sleep and no informational message: neither the
  blink nor a lap is run. If init_leds returns 0, main never returns: the
  message reporting 4 LEDs is the first event after the initialisation and the
  only informational message of the run, the blink follows it, and each
  further unit of fuel adds one more lap.
\<close>

theorem main_outcome:
  "(fst (init_leds p s) \<noteq> 0 \<longrightarrow>
      fst (main n p s) = Some (fst (init_leds p s)) \<and>
      trace (snd (main n p s)) = trace (snd (init_leds p s)) @
        [PRINTK (''LED init failed: %d'' @ [CHR 0x0A]) [ArgD (fst (init_leds p s))]] \<and>
      level (snd (main n p s)) = level (snd (init_leds p s)) \<and>
      filter is_animation (new_events s (snd (main n p s))) = [] \<and>
      filter is_LOG_INF (new_events s (snd (main n p s))) = []) \<and>
   (fst (init_leds p s) = 0 \<longrightarrow>
      fst (main n p s) = None \<and>
      snd (main 0 p s) =
        startup_blink (emit (LOG_INF ''LEDs ready: %u'' [ArgU 4]) (snd (init_leds p s))) \<and>
      snd (main (Suc n) p s) = do_chase_lap (snd (main n p s)) \<and>
      take 1 (new_events (snd (init_leds p s)) (snd (main n p s))) =
        [LOG_INF ''LEDs ready: %u'' [ArgU 4]] \<and>
      filter is_LOG_INF (new_events s (snd (main n p s))) =
        [LOG_INF ''LEDs ready: %u'' [ArgU 4]])"
proof (intro conjI impI)
  obtain e s1 where run: "init_leds p s = (e, s1)"
    by (cases "init_leds p s")
  obtain evs where evs: "trace s1 = trace s @ evs"
    "filter is_animation evs = []" "filter is_LOG_INF evs = []"
    using init_leds_events [of p s] run by auto
  {
    assume "fst (init_leds p s) \<noteq> 0"
    then have fail: "e \<noteq> 0" using run by simp
    have m: "main n p s =
        (Some e, emit (PRINTK (''LED init failed: %d'' @ [CHR 0x0A]) [ArgD e]) s1)"
      using fail run by (simp add: main_def)
    have tr: "trace (snd (main n p s)) =
        trace s @ (evs @ [PRINTK (''LED init failed: %d'' @ [CHR 0x0A]) [ArgD e]])"
      by (simp add: m evs)
    show "fst (main n p s) = Some (fst (init_leds p s))"
      by (simp add: m run)
    show "trace (snd (main n p s)) = trace (snd (init_leds p s)) @
        [PRINTK (''LED init failed: %d'' @ [CHR 0x0A]) [ArgD (fst (init_leds p s))]]"
      by (simp add: m run)
    show "level (snd (main n p s)) = level (snd (init_leds p s))"
      by (simp add: m run)
    show "filter is_animation (new_events s (snd (main n p s))) = []"
      unfolding new_events_append [OF tr] by (simp add: evs)
    show "filter is_LOG_INF (new_events s (snd (main n p s))) = []"
      unfolding new_events_append [OF tr] by (simp add: evs)
  }
  {
    assume "fst (init_leds p s) = 0"
    then have ok: "e = 0" using run by simp
    let ?t = "startup_blink (emit (LOG_INF ''LEDs ready: %u'' [ArgU 4]) s1)"
    have m: "\<And>k. main k p s = (None, chase_laps k ?t)"
      using ok run by (simp add: main_def NUM_LEDS_def)
    obtain laps where laps: "trace (chase_laps n ?t) = trace ?t @ laps"
      "filter is_LOG_INF laps = []"
      using chase_laps_events [of n ?t] by blast
    let ?blink = "[GPIO_PIN_SET 0 1, GPIO_PIN_SET 1 1, GPIO_PIN_SET 2 1, GPIO_PIN_SET 3 1, K_MSLEEP 0,
      GPIO_PIN_SET 0 0, GPIO_PIN_SET 1 0, GPIO_PIN_SET 2 0, GPIO_PIN_SET 3 0, K_MSLEEP 100,
      GPIO_PIN_SET 0 1, GPIO_PIN_SET 1 1, GPIO_PIN_SET 2 1, GPIO_PIN_SET 3 1, K_MSLEEP 0,
      GPIO_PIN_SET 0 0, GPIO_PIN_SET 1 0, GPIO_PIN_SET 2 0, GPIO_PIN_SET 3 0, K_MSLEEP 100]"
    have tr1: "trace (snd (main n p s)) =
        trace s1 @ (LOG_INF ''LEDs ready: %u'' [ArgU 4] # ?blink @ laps)"
      by (simp add: m laps startup_blink_trace)
    have tr: "trace (snd (main n p s)) =
        trace s @ (evs @ LOG_INF ''LEDs ready: %u'' [ArgU 4] # ?blink @ laps)"
      by (simp add: tr1 evs)
    show "fst (main n p s) = None"
      by (simp add: m)
    show "snd (main 0 p s) =
        startup_blink (emit (LOG_INF ''LEDs ready: %u'' [ArgU 4]) (snd (init_leds p s)))"
      by (simp add: m run)
    show "snd (main (Suc n) p s) = do_chase_lap (snd (main n p s))"
      unfolding m snd_conv by (rule chase_laps_Suc)
    show "take 1 (new_events (snd (init_leds p s)) (snd (main n p s))) =
        [LOG_INF ''LEDs ready: %u'' [ArgU 4]]"
      unfolding run snd_conv new_events_append [OF tr1] by simp
    show "filter is_LOG_INF (new_events s (snd (main n p s))) =
        [LOG_INF ''LEDs ready: %u'' [ArgU 4]]"
      unfolding new_events_append [OF tr] by (simp add: evs laps)
  }
qed

text \<open>LED 2 not ready on one board, four good LEDs on the other, three laps of fuel (C8).\<close>

theorem main_outcome_witness:
  "fst (init_leds board_led2_not_ready world0) = - 19 \<and>
   fst (main 3 board_led2_not_ready world0) = Some (- 19) \<and>
   trace (snd (main 3 board_led2_not_ready world0)) =
     [GPIO_IS_READY 0, GPIO_PIN_CONFIGURE 0 GPIO_OUTPUT_INACTIVE,
      GPIO_IS_READY 1, GPIO_PIN_CONFIGURE 1 GPIO_OUTPUT_INACTIVE,
      GPIO_IS_READY 2, LOG_ERR ''LED%u GPIO device not ready'' [ArgU 2],
      PRINTK (''LED init failed: %d'' @ [CHR 0x0A]) [ArgD (- 19)]] \<and>
   fst (init_leds board_ok world0) = 0 \<and>
   fst (main 3 board_ok world0) = None \<and>
   filter is_LOG_INF (new_events world0 (snd (main 3 board_ok world0))) =
     [LOG_INF ''LEDs ready: %u'' [ArgU 4]]"
proof -
  have empty: "trace world0 = []"
    by (simp add: world0_def)
  show ?thesis
    using main_outcome [of board_led2_not_ready world0 3] main_outcome [of board_ok world0 3]
    by (simp add: init_leds_board_ok init_leds_board_led2_not_ready configured_upto_trace
        empty upt_rec)
qed

end
